theory Spec2Isabelle
  imports Main "HOL-Library.AList"
begin

section \<open>The hit counter service: request handlers of service/routes.py\<close>

subsection \<open>What a handler gives back\<close>

text \<open>
  \<open>url_for(endpoint, **values, _external=True)\<close> is kept symbolic: the endpoint's name
  and the values for its path variables. The host and the quoting of the path are the
  framework's.
\<close>

datatype url = Url_for string "(string \<times> string) list"

datatype json =
    JStr string
  | JInt int
  | JUrl url
  | JList "json list"
  | JObj "(string \<times> json) list"

text \<open>
  A response body is the JSON document built by \<open>jsonify\<close>, a plain string (the
  \<open>""\<close> of the delete handler), or the page the framework renders for \<open>abort\<close>,
  which carries the description given to \<open>abort\<close>.
\<close>

datatype payload =
    Json json
  | Text string
  | Abort_page string

record response =
  status :: nat
  body :: payload
  headers :: "(string \<times> url) list"

text \<open>
  The exceptions a store call can raise: the \<open>DatabaseConnectionError\<close> imported from
  the models, with its message, and any other exception.
\<close>

datatype exn =
    DatabaseConnectionError string
  | Exception string

fun str :: "exn \<Rightarrow> string" where
  "str (DatabaseConnectionError m) = m"
| "str (Exception m) = m"

text \<open>
  A handler either answers with a response or lets an exception escape. \<open>abort\<close> raises
  the framework's HTTP exception, which the framework answers with the given status code
  and its own page for the description: no statement of the handler runs after it.
\<close>

datatype outcome =
    Response response
  | Unhandled exn

definition abort :: "nat \<Rightarrow> string \<Rightarrow> outcome" where
  "abort code description =
     Response \<lparr>status = code, body = Abort_page description, headers = []\<rparr>"

definition jsonify :: "json \<Rightarrow> payload" where
  "jsonify j = Json j"

definition url_for :: "string \<Rightarrow> (string \<times> string) list \<Rightarrow> url" where
  "url_for endpoint vals = Url_for endpoint vals"

text \<open>
  Modelled from the spec: the status constants of \<open>service.common.status\<close>, which is
  not among the sources; each is the code in its name (200, 201, 204, 404, 503).
\<close>

definition HTTP_200_OK :: nat where
  "HTTP_200_OK = 200"

definition HTTP_201_CREATED :: nat where
  "HTTP_201_CREATED = 201"

definition HTTP_204_NO_CONTENT :: nat where
  "HTTP_204_NO_CONTENT = 204"

definition HTTP_404_NOT_FOUND :: nat where
  "HTTP_404_NOT_FOUND = 404"

definition HTTP_503_SERVICE_UNAVAILABLE :: nat where
  "HTTP_503_SERVICE_UNAVAILABLE = 503"

subsection \<open>The state the handlers run on\<close>

datatype level = INFO | ERROR

type_synonym log_record = "level \<times> string \<times> json list"

text \<open>
  \<open>db\<close> is the content of the key-value store, one entry per counter name.
  \<open>faults\<close> is what the store will do on its next calls: the head is taken by each
  call, \<open>Some e\<close> makes that call raise \<open>e\<close>, \<open>None\<close> (or an empty list) lets it
  succeed. \<open>raised\<close> records every exception the store has raised, in order.
  \<open>connection\<close> is the connection handle, set by a successful \<open>connect\<close>.
  \<open>logs\<close> is what \<open>app.logger\<close> has been given: level, format string, arguments.
\<close>

record app =
  db :: "(string \<times> int) list"
  faults :: "exn option list"
  raised :: "exn list"
  connection :: "string option"
  logs :: "log_record list"

definition logger_info :: "string \<Rightarrow> json list \<Rightarrow> app \<Rightarrow> app" where
  "logger_info msg args s = s\<lparr>logs := logs s @ [(INFO, msg, args)]\<rparr>"

definition logger_error :: "string \<Rightarrow> app \<Rightarrow> app" where
  "logger_error msg s = s\<lparr>logs := logs s @ [(ERROR, msg, [])]\<rparr>"

definition store_call :: "app \<Rightarrow> exn option \<times> app" where
  "store_call s =
     (case faults s of
        [] \<Rightarrow> (None, s)
      | None # fs \<Rightarrow> (None, s\<lparr>faults := fs\<rparr>)
      | Some e # fs \<Rightarrow> (Some e, s\<lparr>faults := fs, raised := raised s @ [e]\<rparr>))"

definition no_store_failure :: "app \<Rightarrow> bool" where
  "no_store_failure s = list_all (\<lambda>f. f = None) (faults s)"

subsection \<open>The counter model\<close>

text \<open>
  Modelled from the spec: the class \<open>Counter\<close> of service/models.py, which is not among
  the sources. A counter is \<open>{name: string (unique key), value: integer}\<close>; the store
  adapter provides connect, get-all, get-by-name, set/increment-by-name and
  delete-by-name, each of which can fail with a connection/operation failure. A counter
  is serialised as \<open>{name, counter}\<close>.
\<close>

record counter =
  counter_name :: string
  counter_value :: int

text \<open>
  Modelled from the spec: \<open>counter.serialize()\<close>, the counter as the JSON object
  \<open>{name, counter}\<close> of the spec's example, from the fields of the object itself.
\<close>

definition serialize :: "counter \<Rightarrow> json" where
  "serialize c = JObj [(''name'', JStr (counter_name c)), (''counter'', JInt (counter_value c))]"

text \<open>Modelled from the spec: \<open>Counter.connect(uri)\<close>, the store adapter's connect.\<close>

definition Counter_connect :: "string \<Rightarrow> app \<Rightarrow> (exn + unit) \<times> app" where
  "Counter_connect uri s0 =
     (case store_call s0 of
        (Some e, s1) \<Rightarrow> (Inl e, s1)
      | (None, s1) \<Rightarrow> (Inr (), s1\<lparr>connection := Some uri\<rparr>))"

text \<open>Modelled from the spec: \<open>Counter.all()\<close>, get-all: every counter, serialised.\<close>

definition Counter_all :: "app \<Rightarrow> (exn + json list) \<times> app" where
  "Counter_all s0 =
     (case store_call s0 of
        (Some e, s1) \<Rightarrow> (Inl e, s1)
      | (None, s1) \<Rightarrow>
          (Inr (map (\<lambda>(n, v). serialize \<lparr>counter_name = n, counter_value = v\<rparr>) (db s1)), s1))"

text \<open>
  Modelled from the spec: \<open>Counter.find(name)\<close>, get-by-name: the counter stored under
  the name, or \<open>None\<close> when there is none.
\<close>

definition Counter_find :: "string \<Rightarrow> app \<Rightarrow> (exn + counter option) \<times> app" where
  "Counter_find name s0 =
     (case store_call s0 of
        (Some e, s1) \<Rightarrow> (Inl e, s1)
      | (None, s1) \<Rightarrow>
          (Inr (map_option (\<lambda>v. \<lparr>counter_name = name, counter_value = v\<rparr>) (map_of (db s1) name)),
           s1))"

text \<open>
  Modelled from the spec: the constructor \<open>Counter(name)\<close>, set-by-name: the counter is
  stored with value 0.
\<close>

definition Counter_init :: "string \<Rightarrow> app \<Rightarrow> (exn + counter) \<times> app" where
  "Counter_init name s0 =
     (case store_call s0 of
        (Some e, s1) \<Rightarrow> (Inl e, s1)
      | (None, s1) \<Rightarrow>
          (Inr \<lparr>counter_name = name, counter_value = 0\<rparr>,
           s1\<lparr>db := AList.update name 0 (db s1)\<rparr>))"

text \<open>
  Modelled from the spec: \<open>counter.increment()\<close>, increment-by-name: the stored value
  becomes one more and the new value is returned. It is the store's own atomic
  increment, which counts from 0 under a name it does not hold.
\<close>

definition increment :: "counter \<Rightarrow> app \<Rightarrow> (exn + int) \<times> app" where
  "increment c s0 =
     (case store_call s0 of
        (Some e, s1) \<Rightarrow> (Inl e, s1)
      | (None, s1) \<Rightarrow>
          (let count = (case map_of (db s1) (counter_name c) of None \<Rightarrow> 0 | Some v \<Rightarrow> v) + 1
           in (Inr count, s1\<lparr>db := AList.update (counter_name c) count (db s1)\<rparr>)))"

text \<open>
  Modelled from the spec: \<open>del counter.value\<close>, delete-by-name: the counter is removed
  from the store.
\<close>

definition del_value :: "counter \<Rightarrow> app \<Rightarrow> (exn + unit) \<times> app" where
  "del_value c s0 =
     (case store_call s0 of
        (Some e, s1) \<Rightarrow> (Inl e, s1)
      | (None, s1) \<Rightarrow> (Inr (), s1\<lparr>db := AList.delete (counter_name c) (db s1)\<rparr>))"

text \<open>
  Modelled from the spec: the truth value of what \<open>find\<close> returned, tested by
  \<open>if not counter\<close> and \<open>if counter\<close>: a counter that was found counts as true,
  \<open>None\<close> as false.
\<close>

fun truthy :: "counter option \<Rightarrow> bool" where
  "truthy None = False"
| "truthy (Some c) = True"

subsection \<open>The handlers\<close>

text \<open>
  \<open>except DatabaseConnectionError as err: abort(503, err)\<close>: the clause takes this one
  class only, any other exception leaves the handler.
\<close>

fun except_DatabaseConnectionError :: "exn \<Rightarrow> outcome" where
  "except_DatabaseConnectionError (DatabaseConnectionError m) =
     abort HTTP_503_SERVICE_UNAVAILABLE (str (DatabaseConnectionError m))"
| "except_DatabaseConnectionError err = Unhandled err"

definition health :: "app \<Rightarrow> outcome \<times> app" where
  "health s =
     (Response \<lparr>status = HTTP_200_OK, body = jsonify (JObj [(''status'', JStr ''OK'')]),
                headers = []\<rparr>, s)"

definition index :: "app \<Rightarrow> outcome \<times> app" where
  "index s0 =
     (let s1 = logger_info ''Request for Base URL'' [] s0
      in (Response \<lparr>status = 200,
                     body = jsonify (JObj [(''status'', JInt (int HTTP_200_OK)),
                                           (''message'', JStr ''Hit Counter Service''),
                                           (''version'', JStr ''1.0.0''),
                                           (''url'', JUrl (url_for ''list_counters'' []))]),
                     headers = []\<rparr>, s1))"

definition list_counters :: "app \<Rightarrow> outcome \<times> app" where
  "list_counters s0 =
     (let s1 = logger_info ''Request to list all counters...'' [] s0
      in case Counter_all s1 of
           (Inl err, s2) \<Rightarrow> (except_DatabaseConnectionError err, s2)
         | (Inr counters, s2) \<Rightarrow>
             (Response \<lparr>status = 200, body = jsonify (JList counters), headers = []\<rparr>, s2))"

definition read_counters :: "string \<Rightarrow> app \<Rightarrow> outcome \<times> app" where
  "read_counters name s0 =
     (let s1 = logger_info ''Request to Read counter: %s...'' [JStr name] s0
      in case Counter_find name s1 of
           (Inl err, s2) \<Rightarrow> (except_DatabaseConnectionError err, s2)
         | (Inr counter, s2) \<Rightarrow>
             (if \<not> truthy counter
              then (abort HTTP_404_NOT_FOUND (''Counter '' @ name @ '' does not exist''), s2)
              else
                (let c = the counter;
                     s3 = logger_info ''Returning: %d...'' [JInt (counter_value c)] s2
                 in (Response \<lparr>status = 200, body = jsonify (serialize c), headers = []\<rparr>,
                     s3))))"

definition create_counters :: "string \<Rightarrow> app \<Rightarrow> outcome \<times> app" where
  "create_counters name s0 =
     (let s1 = logger_info ''Request to Create counter...'' [] s0
      in case Counter_find name s1 of
           (Inl err, s2) \<Rightarrow> (except_DatabaseConnectionError err, s2)
         | (Inr (Some found), s2) \<Rightarrow>
             (Response \<lparr>status = 409,
                        body = jsonify (JObj [(''code'', JInt 409),
                                              (''error'', JStr ''Counter already exists'')]),
                        headers = []\<rparr>, s2)
         | (Inr None, s2) \<Rightarrow>
             (case Counter_init name s2 of
                (Inl err, s3) \<Rightarrow> (except_DatabaseConnectionError err, s3)
              | (Inr counter, s3) \<Rightarrow>
                  (let location_url = url_for ''read_counters'' [(''name'', name)]
                   in (Response \<lparr>status = HTTP_201_CREATED,
                                  body = jsonify (serialize counter),
                                  headers = [(''Location'', location_url)]\<rparr>, s3))))"

definition update_counters :: "string \<Rightarrow> app \<Rightarrow> outcome \<times> app" where
  "update_counters name s0 =
     (let s1 = logger_info ''Request to Update counter...'' [] s0
      in case Counter_find name s1 of
           (Inl err, s2) \<Rightarrow> (except_DatabaseConnectionError err, s2)
         | (Inr None, s2) \<Rightarrow>
             (Response \<lparr>status = 404,
                        body = jsonify (JObj [(''code'', JInt 404),
                                              (''error'', JStr (''Counter '' @ name @ '' does not exist''))]),
                        headers = []\<rparr>, s2)
         | (Inr (Some counter), s2) \<Rightarrow>
             (case increment counter s2 of
                (Inl err, s3) \<Rightarrow> (except_DatabaseConnectionError err, s3)
              | (Inr count, s3) \<Rightarrow>
                  (Response \<lparr>status = 200,
                             body = jsonify (JObj [(''name'', JStr name), (''counter'', JInt count)]),
                             headers = []\<rparr>, s3)))"

definition delete_counters :: "string \<Rightarrow> app \<Rightarrow> outcome \<times> app" where
  "delete_counters name s0 =
     (let s1 = logger_info ''Request to Delete counter...'' [] s0
      in case Counter_find name s1 of
           (Inl err, s2) \<Rightarrow> (except_DatabaseConnectionError err, s2)
         | (Inr counter, s2) \<Rightarrow>
             (if truthy counter
              then (case del_value (the counter) s2 of
                      (Inl err, s3) \<Rightarrow> (except_DatabaseConnectionError err, s3)
                    | (Inr u, s3) \<Rightarrow>
                        (Response \<lparr>status = HTTP_204_NO_CONTENT, body = Text [], headers = []\<rparr>, s3))
              else (Response \<lparr>status = HTTP_204_NO_CONTENT, body = Text [], headers = []\<rparr>, s2)))"

text \<open>
  \<open>init_db\<close>, run by the framework before the first request. \<open>DATABASE_URI\<close> comes
  from the environment and is a parameter here.
\<close>

definition init_db :: "string \<Rightarrow> app \<Rightarrow> (exn + unit) \<times> app" where
  "init_db DATABASE_URI s0 =
     (let s1 = logger_info ''Initializing the Redis database'' [] s0
      in case Counter_connect DATABASE_URI s1 of
           (Inr u, s2) \<Rightarrow> (Inr (), logger_info ''Connected!'' [] s2)
         | (Inl (DatabaseConnectionError m), s2) \<Rightarrow>
             (Inr (), logger_error (str (DatabaseConnectionError m)) s2)
         | (Inl err, s2) \<Rightarrow> (Inl err, s2))"

subsection \<open>Routing\<close>

datatype request =
    GET_health
  | GET_index
  | GET_counters
  | GET_counter string
  | POST_counter string
  | PUT_counter string
  | DELETE_counter string

fun dispatch :: "request \<Rightarrow> app \<Rightarrow> outcome \<times> app" where
  "dispatch GET_health s = health s"
| "dispatch GET_index s = index s"
| "dispatch GET_counters s = list_counters s"
| "dispatch (GET_counter name) s = read_counters name s"
| "dispatch (POST_counter name) s = create_counters name s"
| "dispatch (PUT_counter name) s = update_counters name s"
| "dispatch (DELETE_counter name) s = delete_counters name s"

text \<open>
  \<open>@app.before_first_request\<close>: the first request is dispatched after \<open>init_db\<close> has
  returned; an exception that leaves \<open>init_db\<close> is the outcome of that request.
\<close>

definition first_request :: "string \<Rightarrow> request \<Rightarrow> app \<Rightarrow> outcome \<times> app" where
  "first_request DATABASE_URI r s0 =
     (case init_db DATABASE_URI s0 of
        (Inl err, s1) \<Rightarrow> (Unhandled err, s1)
      | (Inr u, s1) \<Rightarrow> dispatch r s1)"

fun serve :: "request list \<Rightarrow> app \<Rightarrow> app" where
  "serve [] s = s"
| "serve (r # rs) s = serve rs (snd (dispatch r s))"

fun is_counter_endpoint :: "request \<Rightarrow> bool" where
  "is_counter_endpoint GET_health = False"
| "is_counter_endpoint GET_index = False"
| "is_counter_endpoint r = True"

text \<open>
  The store calls a request makes when none of them fails, as the handlers are written:
  none for the health and index pages, one for the list (\<open>all\<close>) and for a read
  (\<open>find\<close>), and for POST, PUT and DELETE the \<open>find\<close> followed by the constructor,
  the increment or the deletion when the handler gets that far.
\<close>

fun store_calls :: "request \<Rightarrow> app \<Rightarrow> nat" where
  "store_calls GET_health s = 0"
| "store_calls GET_index s = 0"
| "store_calls GET_counters s = 1"
| "store_calls (GET_counter name) s = 1"
| "store_calls (POST_counter name) s = (if map_of (db s) name = None then 2 else 1)"
| "store_calls (PUT_counter name) s = (if map_of (db s) name = None then 1 else 2)"
| "store_calls (DELETE_counter name) s = (if map_of (db s) name = None then 1 else 2)"

text \<open>
  The first exception among the next \<open>n\<close> entries of the schedule of the store, and the
  exception the store holds for a request: the first one among the calls the request
  makes.
\<close>

fun first_failure :: "nat \<Rightarrow> exn option list \<Rightarrow> exn option" where
  "first_failure 0 fs = None"
| "first_failure (Suc n) [] = None"
| "first_failure (Suc n) (Some e # fs) = Some e"
| "first_failure (Suc n) (None # fs) = first_failure n fs"

definition store_failure :: "request \<Rightarrow> app \<Rightarrow> exn option" where
  "store_failure r s = first_failure (store_calls r s) (faults s)"

fun raises :: "exn option \<Rightarrow> exn list" where
  "raises None = []"
| "raises (Some e) = [e]"

definition counters_nonneg :: "app \<Rightarrow> bool" where
  "counters_nonneg s = list_all (\<lambda>(n, v). 0 \<le> v) (db s)"

subsection \<open>The life of a counter, and two states to run the handlers on\<close>

text \<open>
  The data model as the specification words it: a counter is created by POST with value
  0, changed by PUT by adding 1, and removed by DELETE; nothing else changes it.
  \<open>before\<close> and \<open>after\<close> are the value stored under the name \<open>n\<close> around one request.
\<close>

definition counter_change :: "request \<Rightarrow> string \<Rightarrow> int option \<Rightarrow> int option \<Rightarrow> bool" where
  "counter_change r n before after =
     (after = before
      \<or> r = POST_counter n \<and> before = None \<and> after = Some 0
      \<or> r = PUT_counter n \<and> (\<exists>v. before = Some v \<and> after = Some (v + 1))
      \<or> r = DELETE_counter n \<and> after = None)"

text \<open>An empty store that answers every call, and one whose next call fails.\<close>

definition initial :: app where
  "initial = \<lparr>db = [], faults = [], raised = [], connection = None, logs = []\<rparr>"

definition outage :: "exn \<Rightarrow> app" where
  "outage e = \<lparr>db = [], faults = [Some e], raised = [], connection = None, logs = []\<rparr>"

section \<open>Facts about the store calls and the handlers\<close>

subsection \<open>A store that does not fail\<close>

lemma store_call_ok:
  "no_store_failure s \<Longrightarrow> store_call s = (None, s\<lparr>faults := tl (faults s)\<rparr>)"
  by (cases "faults s") (auto simp: no_store_failure_def store_call_def)

lemma list_all_tl: "list_all P xs \<Longrightarrow> list_all P (tl xs)"
  by (cases xs) auto

lemma no_store_failure_faults:
  "no_store_failure s \<Longrightarrow> list_all (\<lambda>f. f = None) (faults s)"
  by (simp add: no_store_failure_def)

lemma no_store_failure_faults_update [simp]:
  "no_store_failure (s\<lparr>faults := fs\<rparr>) = list_all (\<lambda>f. f = None) fs"
  by (simp add: no_store_failure_def)

lemmas nsf = no_store_failure_faults list_all_tl

lemma no_store_failure_logger_info [simp]:
  "no_store_failure (logger_info msg args s) = no_store_failure s"
  by (simp add: no_store_failure_def logger_info_def)

lemma no_store_failure_db [simp]:
  "no_store_failure (s\<lparr>db := d\<rparr>) = no_store_failure s"
  by (simp add: no_store_failure_def)

lemma db_logger_info [simp]: "db (logger_info msg args s) = db s"
  by (simp add: logger_info_def)

lemma faults_logger_info [simp]: "faults (logger_info msg args s) = faults s"
  by (simp add: logger_info_def)

lemma raised_logger_info [simp]: "raised (logger_info msg args s) = raised s"
  by (simp add: logger_info_def)

lemma no_store_failure_initial: "no_store_failure initial"
  by (simp add: initial_def no_store_failure_def)


lemma Counter_find_ok:
  "no_store_failure s \<Longrightarrow>
   Counter_find name s =
     (Inr (map_option (\<lambda>v. \<lparr>counter_name = name, counter_value = v\<rparr>) (map_of (db s) name)),
      s\<lparr>faults := tl (faults s)\<rparr>)"
  by (simp add: Counter_find_def store_call_ok)

lemma Counter_init_ok:
  "no_store_failure s \<Longrightarrow>
   Counter_init name s =
     (Inr \<lparr>counter_name = name, counter_value = 0\<rparr>,
      s\<lparr>faults := tl (faults s), db := AList.update name 0 (db s)\<rparr>)"
  by (simp add: Counter_init_def store_call_ok)

lemma increment_ok:
  "no_store_failure s \<Longrightarrow> map_of (db s) (counter_name c) = Some v \<Longrightarrow>
   increment c s =
     (Inr (v + 1), s\<lparr>faults := tl (faults s), db := AList.update (counter_name c) (v + 1) (db s)\<rparr>)"
  by (simp add: increment_def store_call_ok Let_def)



lemma update_counters_present:
  "no_store_failure s \<Longrightarrow> map_of (db s) name = Some v \<Longrightarrow>
   update_counters name s =
     (Response \<lparr>status = 200,
                body = Json (JObj [(''name'', JStr name), (''counter'', JInt (v + 1))]),
                headers = []\<rparr>,
      (logger_info ''Request to Update counter...'' [] s)
        \<lparr>faults := tl (tl (faults s)), db := AList.update name (v + 1) (db s)\<rparr>)"
  by (simp add: update_counters_def Counter_find_ok increment_ok jsonify_def nsf)


lemma create_counters_absent:
  "no_store_failure s \<Longrightarrow> map_of (db s) name = None \<Longrightarrow>
   create_counters name s =
     (Response \<lparr>status = 201,
                body = Json (JObj [(''name'', JStr name), (''counter'', JInt 0)]),
                headers = [(''Location'', Url_for ''read_counters'' [(''name'', name)])]\<rparr>,
      (logger_info ''Request to Create counter...'' [] s)
        \<lparr>faults := tl (tl (faults s)), db := AList.update name 0 (db s)\<rparr>)"
  by (simp add: create_counters_def Counter_find_ok Counter_init_ok jsonify_def serialize_def
      url_for_def HTTP_201_CREATED_def nsf)







subsection \<open>What the store raised during a request\<close>

lemma store_call_raised:
  "store_call s = (res, s') \<Longrightarrow>
   db s' = db s \<and> raised s' = raised s @ (case res of None \<Rightarrow> [] | Some e \<Rightarrow> [e])"
  by (auto simp: store_call_def split: list.splits option.splits)

lemma Counter_all_raised:
  "Counter_all s = (res, s') \<Longrightarrow>
   raised s' = raised s @ (case res of Inl e \<Rightarrow> [e] | Inr x \<Rightarrow> [])"
  by (auto simp: Counter_all_def split: prod.splits option.splits dest: store_call_raised)

lemma Counter_find_raised:
  "Counter_find name s = (res, s') \<Longrightarrow>
   raised s' = raised s @ (case res of Inl e \<Rightarrow> [e] | Inr x \<Rightarrow> [])"
  by (auto simp: Counter_find_def split: prod.splits option.splits dest: store_call_raised)

lemma Counter_init_raised:
  "Counter_init name s = (res, s') \<Longrightarrow>
   raised s' = raised s @ (case res of Inl e \<Rightarrow> [e] | Inr x \<Rightarrow> [])"
  by (auto simp: Counter_init_def split: prod.splits option.splits dest: store_call_raised)

lemma increment_raised:
  "increment c s = (res, s') \<Longrightarrow>
   raised s' = raised s @ (case res of Inl e \<Rightarrow> [e] | Inr x \<Rightarrow> [])"
  by (auto simp: increment_def Let_def split: prod.splits option.splits dest: store_call_raised)

lemma del_value_raised:
  "del_value c s = (res, s') \<Longrightarrow>
   raised s' = raised s @ (case res of Inl e \<Rightarrow> [e] | Inr x \<Rightarrow> [])"
  by (auto simp: del_value_def split: prod.splits option.splits dest: store_call_raised)

lemma list_counters_trace:
  "list_counters s = (out, s') \<Longrightarrow>
   (raised s' = raised s \<and> (\<forall>r. out = Response r \<longrightarrow> status r \<noteq> 503)) \<or>
   (\<exists>e. raised s' = raised s @ [e] \<and> out = except_DatabaseConnectionError e)"
  by (auto simp: list_counters_def Let_def split: prod.splits sum.splits
      dest!: Counter_all_raised)

lemma read_counters_trace:
  "read_counters name s = (out, s') \<Longrightarrow>
   (raised s' = raised s \<and> (\<forall>r. out = Response r \<longrightarrow> status r \<noteq> 503)) \<or>
   (\<exists>e. raised s' = raised s @ [e] \<and> out = except_DatabaseConnectionError e)"
  by (auto simp: read_counters_def Let_def abort_def HTTP_404_NOT_FOUND_def
      split: prod.splits sum.splits if_splits dest!: Counter_find_raised)

lemma create_counters_trace:
  "create_counters name s = (out, s') \<Longrightarrow>
   (raised s' = raised s \<and> (\<forall>r. out = Response r \<longrightarrow> status r \<noteq> 503)) \<or>
   (\<exists>e. raised s' = raised s @ [e] \<and> out = except_DatabaseConnectionError e)"
  by (auto simp: create_counters_def Let_def HTTP_201_CREATED_def
      split: prod.splits sum.splits option.splits
      dest!: Counter_find_raised Counter_init_raised)

lemma update_counters_trace:
  "update_counters name s = (out, s') \<Longrightarrow>
   (raised s' = raised s \<and> (\<forall>r. out = Response r \<longrightarrow> status r \<noteq> 503)) \<or>
   (\<exists>e. raised s' = raised s @ [e] \<and> out = except_DatabaseConnectionError e)"
  by (auto simp: update_counters_def Let_def
      split: prod.splits sum.splits option.splits
      dest!: Counter_find_raised increment_raised)

lemma delete_counters_trace:
  "delete_counters name s = (out, s') \<Longrightarrow>
   (raised s' = raised s \<and> (\<forall>r. out = Response r \<longrightarrow> status r \<noteq> 503)) \<or>
   (\<exists>e. raised s' = raised s @ [e] \<and> out = except_DatabaseConnectionError e)"
  by (auto simp: delete_counters_def Let_def HTTP_204_NO_CONTENT_def
      split: prod.splits sum.splits if_splits
      dest!: Counter_find_raised del_value_raised)

lemma dispatch_trace:
  assumes "is_counter_endpoint r" and "dispatch r s = (out, s')"
  shows "(raised s' = raised s \<and> (\<forall>r. out = Response r \<longrightarrow> status r \<noteq> 503)) \<or>
         (\<exists>e. raised s' = raised s @ [e] \<and> out = except_DatabaseConnectionError e)"
  using assms
  by (cases r)
    (simp_all add: list_counters_trace read_counters_trace create_counters_trace
      update_counters_trace delete_counters_trace)

subsection \<open>The schedule of the store and what a request meets of it\<close>

lemma truthy_map_option [simp]: "truthy (map_option f x) = (x \<noteq> None)"
  by (cases x) simp_all

lemma list_counters_schedule:
  "raised (snd (list_counters s)) = raised s @ raises (store_failure GET_counters s)"
  by (auto simp: list_counters_def Counter_all_def store_call_def store_failure_def logger_info_def
      Let_def split: list.splits option.splits exn.splits)

lemma read_counters_schedule:
  "raised (snd (read_counters name s)) = raised s @ raises (store_failure (GET_counter name) s)"
  by (auto simp: read_counters_def Counter_find_def store_call_def store_failure_def logger_info_def
      Let_def split: list.splits option.splits exn.splits)

lemma create_counters_schedule:
  "raised (snd (create_counters name s)) = raised s @ raises (store_failure (POST_counter name) s)"
  by (auto simp: create_counters_def Counter_find_def Counter_init_def store_call_def
      store_failure_def logger_info_def Let_def numeral_2_eq_2
      split: list.splits option.splits exn.splits)

lemma update_counters_schedule:
  "raised (snd (update_counters name s)) = raised s @ raises (store_failure (PUT_counter name) s)"
  by (auto simp: update_counters_def Counter_find_def increment_def store_call_def
      store_failure_def logger_info_def Let_def numeral_2_eq_2
      split: list.splits option.splits exn.splits)

lemma delete_counters_schedule:
  "raised (snd (delete_counters name s)) = raised s @ raises (store_failure (DELETE_counter name) s)"
  by (auto simp: delete_counters_def Counter_find_def del_value_def store_call_def
      store_failure_def logger_info_def Let_def numeral_2_eq_2
      split: list.splits option.splits exn.splits)

lemma dispatch_schedule:
  "raised (snd (dispatch r s)) = raised s @ raises (store_failure r s)"
  by (cases r)
    (simp_all add: list_counters_schedule read_counters_schedule create_counters_schedule
      update_counters_schedule delete_counters_schedule,
     simp_all add: health_def index_def Let_def store_failure_def logger_info_def)


lemma dispatch_store_failure:
  assumes "is_counter_endpoint r"
  shows "case store_failure r s of
           None \<Rightarrow> \<forall>resp. fst (dispatch r s) = Response resp \<longrightarrow> status resp \<noteq> 503
         | Some e \<Rightarrow> fst (dispatch r s) = except_DatabaseConnectionError e"
proof -
  have trace: "(raised (snd (dispatch r s)) = raised s \<and>
        (\<forall>resp. fst (dispatch r s) = Response resp \<longrightarrow> status resp \<noteq> 503)) \<or>
      (\<exists>e. raised (snd (dispatch r s)) = raised s @ [e] \<and>
        fst (dispatch r s) = except_DatabaseConnectionError e)"
    using dispatch_trace [OF assms, of s "fst (dispatch r s)" "snd (dispatch r s)"] by simp
  show ?thesis
  proof (cases "store_failure r s")
    case None
    then have "raised (snd (dispatch r s)) = raised s"
      by (simp add: dispatch_schedule)
    with trace None show ?thesis by auto
  next
    case (Some e)
    then have "raised (snd (dispatch r s)) = raised s @ [e]"
      by (simp add: dispatch_schedule)
    with trace Some show ?thesis by auto
  qed
qed

subsection \<open>What a request does to the stored counters\<close>

lemma store_call_db: "store_call s = (res, s') \<Longrightarrow> db s' = db s"
  by (auto simp: store_call_def split: list.splits option.splits)

lemma list_all_update:
  "list_all P al \<Longrightarrow> P (k, v) \<Longrightarrow> list_all P (AList.update k v al)"
  by (induction al) auto

lemma list_all_delete: "list_all P al \<Longrightarrow> list_all P (AList.delete k al)"
  by (simp add: AList.delete_eq list_all_iff)

lemma list_all_map_of:
  "list_all P al \<Longrightarrow> map_of al k = Some v \<Longrightarrow> P (k, v)"
  by (auto simp: list_all_iff dest: map_of_SomeD)

lemma stored_nonneg:
  "list_all (\<lambda>(n, v). (0::int) \<le> v) al \<Longrightarrow> map_of al k = Some v \<Longrightarrow> 0 \<le> v"
  using list_all_map_of [of "\<lambda>(n, v). (0::int) \<le> v" al k v] by simp

lemma Counter_all_db: "Counter_all s = (res, s') \<Longrightarrow> db s' = db s"
  by (auto simp: Counter_all_def split: prod.splits option.splits dest: store_call_db)

lemma Counter_find_db: "Counter_find name s = (res, s') \<Longrightarrow> db s' = db s"
  by (auto simp: Counter_find_def split: prod.splits option.splits dest: store_call_db)

lemma Counter_find_result:
  "Counter_find name s = (res, s') \<Longrightarrow>
   db s' = db s \<and>
   (res = Inr None \<longrightarrow> map_of (db s) name = None) \<and>
   (\<forall>c. res = Inr (Some c) \<longrightarrow>
      counter_name c = name \<and> map_of (db s) name = Some (counter_value c))"
  by (auto simp: Counter_find_def split: prod.splits option.splits dest: store_call_db)

lemma Counter_init_db:
  "Counter_init name s = (res, s') \<Longrightarrow>
   db s' = (case res of Inl e \<Rightarrow> db s | Inr c \<Rightarrow> AList.update name 0 (db s))"
  by (auto simp: Counter_init_def split: prod.splits option.splits dest: store_call_db)

lemma increment_db:
  "increment c s = (res, s') \<Longrightarrow>
   db s' = (case res of Inl e \<Rightarrow> db s
            | Inr n \<Rightarrow> AList.update (counter_name c)
                ((case map_of (db s) (counter_name c) of None \<Rightarrow> 0 | Some v \<Rightarrow> v) + 1) (db s))"
  by (auto simp: increment_def Let_def split: prod.splits option.splits dest: store_call_db)

lemma del_value_db:
  "del_value c s = (res, s') \<Longrightarrow>
   db s' = (case res of Inl e \<Rightarrow> db s | Inr u \<Rightarrow> AList.delete (counter_name c) (db s))"
  by (auto simp: del_value_def split: prod.splits option.splits dest: store_call_db)

lemma Counter_init_nonneg:
  "Counter_init name s = (res, s') \<Longrightarrow> counters_nonneg s \<Longrightarrow> counters_nonneg s'"
  by (auto simp: Counter_init_def counters_nonneg_def list_all_update
      split: prod.splits option.splits dest: store_call_db)

lemma increment_nonneg:
  assumes "increment c s = (res, s')" and "counters_nonneg s"
  shows "counters_nonneg s'"
proof -
  obtain f s1 where call: "store_call s = (f, s1)"
    by (cases "store_call s")
  then have same: "db s1 = db s"
    by (rule store_call_db)
  show ?thesis
  proof (cases f)
    case (Some e)
    then have "s' = s1"
      using assms(1) call by (simp add: increment_def)
    then show ?thesis
      using assms(2) same by (simp add: counters_nonneg_def)
  next
    case None
    let ?old = "case map_of (db s) (counter_name c) of None \<Rightarrow> 0 | Some v \<Rightarrow> v"
    have "0 \<le> ?old"
      using assms(2) by (auto simp: counters_nonneg_def split: option.splits dest: stored_nonneg)
    moreover have "db s' = AList.update (counter_name c) (?old + 1) (db s)"
      using assms(1) call None same by (auto simp: increment_def Let_def)
    ultimately show ?thesis
      using assms(2) by (simp add: counters_nonneg_def list_all_update)
  qed
qed

lemma del_value_nonneg:
  "del_value c s = (res, s') \<Longrightarrow> counters_nonneg s \<Longrightarrow> counters_nonneg s'"
  by (auto simp: del_value_def counters_nonneg_def list_all_delete
      split: prod.splits option.splits dest: store_call_db)

lemma counters_nonneg_logger_info [simp]:
  "counters_nonneg (logger_info msg args s) = counters_nonneg s"
  by (simp add: counters_nonneg_def)

lemma counters_nonneg_db: "db s' = db s \<Longrightarrow> counters_nonneg s' = counters_nonneg s"
  by (simp add: counters_nonneg_def)

lemma dispatch_nonneg:
  assumes "counters_nonneg s"
  shows "counters_nonneg (snd (dispatch r s))"
proof (cases r)
  case GET_health
  then show ?thesis using assms by (simp add: health_def)
next
  case GET_index
  then show ?thesis using assms by (simp add: index_def Let_def)
next
  case GET_counters
  then show ?thesis using assms
    by (auto simp: list_counters_def Let_def split: prod.splits sum.splits
        dest!: Counter_all_db counters_nonneg_db)
next
  case (GET_counter name)
  then show ?thesis using assms
    by (auto simp: read_counters_def Let_def split: prod.splits sum.splits
        dest!: Counter_find_db counters_nonneg_db)
next
  case (POST_counter name)
  then show ?thesis using assms
    by (auto simp: create_counters_def Let_def split: prod.splits sum.splits option.splits
        dest!: Counter_find_db counters_nonneg_db dest: Counter_init_nonneg)
next
  case (PUT_counter name)
  then show ?thesis using assms
    by (auto simp: update_counters_def Let_def split: prod.splits sum.splits option.splits
        dest!: Counter_find_db counters_nonneg_db dest: increment_nonneg)
next
  case (DELETE_counter name)
  then show ?thesis using assms
    by (auto simp: delete_counters_def Let_def split: prod.splits sum.splits option.splits
        dest!: Counter_find_db counters_nonneg_db dest: del_value_nonneg)
qed

lemma serve_nonneg: "counters_nonneg s \<Longrightarrow> counters_nonneg (serve rs s)"
  by (induction rs arbitrary: s) (simp_all add: dispatch_nonneg)

lemma dispatch_counter_change:
  "counter_change r n (map_of (db s) n) (map_of (db (snd (dispatch r s))) n)"
proof (cases r)
  case GET_health
  then show ?thesis by (simp add: health_def counter_change_def)
next
  case GET_index
  then show ?thesis by (simp add: index_def Let_def counter_change_def)
next
  case GET_counters
  then show ?thesis
    by (auto simp: list_counters_def Let_def counter_change_def split: prod.splits sum.splits
        dest!: Counter_all_db)
next
  case (GET_counter name)
  then show ?thesis
    by (auto simp: read_counters_def Let_def counter_change_def split: prod.splits sum.splits
        dest!: Counter_find_db)
next
  case (POST_counter name)
  then show ?thesis
    by (auto simp: create_counters_def Let_def counter_change_def update_conv'
        split: prod.splits sum.splits option.splits if_splits
        dest!: Counter_find_result Counter_init_db)
next
  case (PUT_counter name)
  then show ?thesis
    by (auto simp: update_counters_def Let_def counter_change_def update_conv'
        split: prod.splits sum.splits option.splits if_splits
        dest!: Counter_find_result increment_db)
next
  case (DELETE_counter name)
  then show ?thesis
    by (auto simp: delete_counters_def Let_def counter_change_def delete_conv'
        split: prod.splits sum.splits option.splits if_splits
        dest!: Counter_find_result del_value_db)
qed


section \<open>The properties of the specification\<close>

text \<open>
  In the statements below a store that does not fail is \<open>no_store_failure s\<close>: none of
  the calls to come raises. \<open>map_of (db s) name\<close> is the value stored under a name.
\<close>









text \<open>
  Claim C5. For the five counter endpoints and every schedule of the store: the request
  is answered 503 with the message \<open>m\<close> exactly when the first exception the store holds
  for the calls of that request is \<open>DatabaseConnectionError m\<close>; it is answered 503 at
  all only in that case; when that first exception is of any other kind it leaves the
  handler and there is no 503. In particular a store whose next call raises
  \<open>DatabaseConnectionError m\<close> makes every counter endpoint answer 503 with \<open>m\<close>.
  What the store has raised by the end of the request is that one exception.
\<close>

theorem store_failure_gives_503:
  assumes "is_counter_endpoint r"
  shows "(fst (dispatch r s) = abort HTTP_503_SERVICE_UNAVAILABLE m \<longleftrightarrow>
            store_failure r s = Some (DatabaseConnectionError m))
       \<and> ((\<exists>resp. fst (dispatch r s) = Response resp \<and> status resp = 503) \<longleftrightarrow>
            (\<exists>m'. store_failure r s = Some (DatabaseConnectionError m')))
       \<and> (store_failure r s = Some (Exception m) \<longrightarrow>
            fst (dispatch r s) = Unhandled (Exception m))
       \<and> (faults s = Some (DatabaseConnectionError m) # fs \<longrightarrow>
            fst (dispatch r s) = abort HTTP_503_SERVICE_UNAVAILABLE m)
       \<and> (faults s = Some (Exception m) # fs \<longrightarrow>
            fst (dispatch r s) = Unhandled (Exception m))
       \<and> raised (snd (dispatch r s)) = raised s @ raises (store_failure r s)"
proof -
  have first: "store_failure r s = Some e" if "faults s = Some e # fs" for e
    using that assms by (cases r) (simp_all add: store_failure_def numeral_2_eq_2)
  note outcome = dispatch_store_failure [OF assms, of s]
  have a: "fst (dispatch r s) = abort HTTP_503_SERVICE_UNAVAILABLE m \<longleftrightarrow>
            store_failure r s = Some (DatabaseConnectionError m)"
  proof (cases "store_failure r s")
    case None
    with outcome show ?thesis
      by (auto simp: abort_def HTTP_503_SERVICE_UNAVAILABLE_def)
  next
    case (Some e)
    with outcome show ?thesis
      by (cases e) (auto simp: abort_def HTTP_503_SERVICE_UNAVAILABLE_def)
  qed
  have b: "(\<exists>resp. fst (dispatch r s) = Response resp \<and> status resp = 503) \<longleftrightarrow>
            (\<exists>m'. store_failure r s = Some (DatabaseConnectionError m'))"
  proof (cases "store_failure r s")
    case None
    with outcome show ?thesis by auto
  next
    case (Some e)
    with outcome show ?thesis
      by (cases e) (auto simp: abort_def HTTP_503_SERVICE_UNAVAILABLE_def)
  qed
  have c: "fst (dispatch r s) = except_DatabaseConnectionError e" if "store_failure r s = Some e" for e
    using outcome that by simp
  show ?thesis
    using a b c [of "Exception m"] c [of "DatabaseConnectionError m"] first
    by (simp add: dispatch_schedule)
qed

theorem store_failure_gives_503_witness:
  "is_counter_endpoint (DELETE_counter ''clicks'')
   \<and> faults (outage (DatabaseConnectionError ''down'')) = [Some (DatabaseConnectionError ''down'')]
   \<and> fst (dispatch (DELETE_counter ''clicks'') (outage (DatabaseConnectionError ''down''))) =
       Response \<lparr>status = 503, body = Abort_page ''down'', headers = []\<rparr>
   \<and> store_failure (PUT_counter ''clicks'')
        (initial\<lparr>db := [(''clicks'', 1)], faults := [None, Some (DatabaseConnectionError ''down'')]\<rparr>) =
       Some (DatabaseConnectionError ''down'')
   \<and> fst (dispatch (PUT_counter ''clicks'')
        (initial\<lparr>db := [(''clicks'', 1)], faults := [None, Some (DatabaseConnectionError ''down'')]\<rparr>)) =
       Response \<lparr>status = 503, body = Abort_page ''down'', headers = []\<rparr>
   \<and> faults (outage (Exception ''boom'')) = [Some (Exception ''boom'')]
   \<and> fst (dispatch GET_counters (outage (Exception ''boom''))) = Unhandled (Exception ''boom'')
   \<and> store_failure (GET_counter ''clicks'') initial = None
   \<and> (\<nexists>resp. fst (dispatch (GET_counter ''clicks'') initial) = Response resp \<and> status resp = 503)"
proof -
  let ?down = "outage (DatabaseConnectionError ''down'')"
  let ?late = "initial\<lparr>db := [(''clicks'', 1)],
                 faults := [None, Some (DatabaseConnectionError ''down'')]\<rparr>"
  let ?boom = "outage (Exception ''boom'')"
  have down: "faults ?down = [Some (DatabaseConnectionError ''down'')]"
    by (simp add: outage_def)
  have late: "store_failure (PUT_counter ''clicks'') ?late = Some (DatabaseConnectionError ''down'')"
    by (simp add: store_failure_def initial_def numeral_2_eq_2)
  have boom: "faults ?boom = [Some (Exception ''boom'')]"
    by (simp add: outage_def)
  have quiet: "store_failure (GET_counter ''clicks'') initial = None"
    by (simp add: store_failure_def initial_def)
  have "fst (dispatch (DELETE_counter ''clicks'') ?down) = abort HTTP_503_SERVICE_UNAVAILABLE ''down''"
    using store_failure_gives_503 [of "DELETE_counter ''clicks''" ?down "''down''" "[]"] down
    by simp
  moreover have "fst (dispatch (PUT_counter ''clicks'') ?late) =
      abort HTTP_503_SERVICE_UNAVAILABLE ''down''"
    using store_failure_gives_503 [of "PUT_counter ''clicks''" ?late "''down''"] late
    by simp
  moreover have "fst (dispatch GET_counters ?boom) = Unhandled (Exception ''boom'')"
    using store_failure_gives_503 [of GET_counters ?boom "''boom''" "[]"] boom
    by simp
  moreover have "\<nexists>resp. fst (dispatch (GET_counter ''clicks'') initial) = Response resp \<and>
      status resp = 503"
    using store_failure_gives_503 [of "GET_counter ''clicks''" initial] quiet
    by simp
  ultimately show ?thesis
    using down late boom quiet by (simp add: abort_def HTTP_503_SERVICE_UNAVAILABLE_def)
qed

text \<open>
  Claim C6. No stored counter value is negative: this holds in every state reached
  from an empty store by any sequence of requests, and every single request preserves
  it, whatever the store's failures. Around one request the value under a name is
  unchanged, or was created as 0 by POST, or was raised by 1 by PUT, or was removed by
  DELETE.
\<close>

theorem counter_values_nonneg:
  "(db s0 = [] \<longrightarrow> counters_nonneg (serve rs s0))
   \<and> (counters_nonneg s \<longrightarrow> counters_nonneg (snd (dispatch r s)))
   \<and> (counters_nonneg s \<longrightarrow> (\<forall>n v. map_of (db s) n = Some v \<longrightarrow> 0 \<le> v))
   \<and> counter_change r n (map_of (db s) n) (map_of (db (snd (dispatch r s))) n)"
proof (intro conjI impI allI)
  assume "db s0 = []"
  then have "counters_nonneg s0"
    by (simp add: counters_nonneg_def)
  then show "counters_nonneg (serve rs s0)"
    by (rule serve_nonneg)
next
  assume "counters_nonneg s"
  then show "counters_nonneg (snd (dispatch r s))"
    by (rule dispatch_nonneg)
next
  fix k v
  assume "counters_nonneg s" and "map_of (db s) k = Some v"
  then show "0 \<le> v"
    by (auto simp: counters_nonneg_def dest: stored_nonneg)
next
  show "counter_change r n (map_of (db s) n) (map_of (db (snd (dispatch r s))) n)"
    by (rule dispatch_counter_change)
qed

theorem counter_values_nonneg_witness:
  "db initial = []
   \<and> db (serve [POST_counter ''clicks'', PUT_counter ''clicks''] initial) = [(''clicks'', 1)]
   \<and> counters_nonneg (serve [POST_counter ''clicks'', PUT_counter ''clicks''] initial)
   \<and> counters_nonneg (snd (dispatch (DELETE_counter ''clicks'')
        (serve [POST_counter ''clicks'', PUT_counter ''clicks''] initial)))
   \<and> map_of (db (serve [POST_counter ''clicks'', PUT_counter ''clicks''] initial)) ''clicks'' = Some 1
   \<and> (0::int) \<le> 1"
proof -
  let ?s = "serve [POST_counter ''clicks'', PUT_counter ''clicks''] initial"
  have empty: "db initial = []"
    by (simp add: initial_def)
  have created: "db (snd (create_counters ''clicks'' initial)) = [(''clicks'', 0)]"
    using no_store_failure_initial empty by (simp add: create_counters_absent)
  have ok: "no_store_failure (snd (create_counters ''clicks'' initial))"
    using no_store_failure_initial empty by (simp add: create_counters_absent nsf)
  have stored: "db ?s = [(''clicks'', 1)]"
    using ok created by (simp add: update_counters_present)
  have nonneg: "counters_nonneg ?s"
    using counter_values_nonneg [of initial "[POST_counter ''clicks'', PUT_counter ''clicks'']"]
      empty
    by blast
  then have "counters_nonneg (snd (dispatch (DELETE_counter ''clicks'') ?s))"
    using counter_values_nonneg [of _ _ ?s "DELETE_counter ''clicks''"] by blast
  then show ?thesis
    using empty stored nonneg by simp
qed

text \<open>
  Claim C7. In every state, whatever the store is about to do, \<open>/health\<close> answers 200
  with the body \<open>{status: "OK"}\<close> and leaves the state untouched: it makes no store
  call.
\<close>

theorem health_unconditional:
  "health s =
     (Response \<lparr>status = 200, body = Json (JObj [(''status'', JStr ''OK'')]), headers = []\<rparr>, s)"
  by (simp add: health_def HTTP_200_OK_def jsonify_def)



text \<open>
  Claim C9. When \<open>connect\<close> raises \<open>DatabaseConnectionError\<close> at startup,
  \<open>init_db\<close> returns normally: it logs the message as an error (and not
  \<open>Connected!\<close>), the connection handle is left as it was, and the first request is
  dispatched as usual.
\<close>

theorem init_db_logs_connection_failure:
  assumes "faults s = Some (DatabaseConnectionError m) # fs"
  shows "init_db uri s =
           (Inr (),
            s\<lparr>faults := fs, raised := raised s @ [DatabaseConnectionError m],
               logs := logs s @ [(INFO, ''Initializing the Redis database'', []), (ERROR, m, [])]\<rparr>)
       \<and> connection (snd (init_db uri s)) = connection s
       \<and> first_request uri r s = dispatch r (snd (init_db uri s))"
proof -
  have "init_db uri s =
           (Inr (),
            s\<lparr>faults := fs, raised := raised s @ [DatabaseConnectionError m],
               logs := logs s @ [(INFO, ''Initializing the Redis database'', []), (ERROR, m, [])]\<rparr>)"
    using assms
    by (simp add: init_db_def Counter_connect_def store_call_def logger_info_def logger_error_def)
  then show ?thesis
    by (simp add: first_request_def)
qed

theorem init_db_logs_connection_failure_witness:
  "faults (outage (DatabaseConnectionError ''Could not connect'')) =
     [Some (DatabaseConnectionError ''Could not connect'')]
   \<and> init_db ''redis://localhost:6379'' (outage (DatabaseConnectionError ''Could not connect'')) =
       (Inr (),
        \<lparr>db = [], faults = [], raised = [DatabaseConnectionError ''Could not connect''],
         connection = None,
         logs = [(INFO, ''Initializing the Redis database'', []),
                 (ERROR, ''Could not connect'', [])]\<rparr>)
   \<and> fst (first_request ''redis://localhost:6379'' GET_health
            (outage (DatabaseConnectionError ''Could not connect''))) =
       Response \<lparr>status = 200, body = Json (JObj [(''status'', JStr ''OK'')]), headers = []\<rparr>"
proof -
  have down: "faults (outage (DatabaseConnectionError ''Could not connect'')) =
     [Some (DatabaseConnectionError ''Could not connect'')]"
    by (simp add: outage_def)
  show ?thesis
    using init_db_logs_connection_failure [OF down, of "''redis://localhost:6379''" GET_health] down
    by (simp add: outage_def health_def HTTP_200_OK_def jsonify_def)
qed

end
